theory Spec2Isabelle
  imports Main "HOL-Library.Char_ord" "HOL-Library.List_Lexorder"
begin

section \<open>The Nexus HTTP handler of \<^verbatim>\<open>nexus/server.go\<close>\<close>

text \<open>
  Go strings are byte sequences and are modelled as \<^typ>\<open>string\<close> (a list of 8-bit
  characters). Status codes are natural numbers. A Go \<^verbatim>\<open>map[string]string\<close> that the
  code ranges over is an association list, in the order the range statement visits it.
\<close>

subsection \<open>Constants\<close>

text \<open>The \<^verbatim>\<open>HandlerErrorType\<close> constants (server.go, lines 95-120); the type is a Go string.\<close>

type_synonym HandlerErrorType = string

definition HandlerErrorTypeOperationCanceled :: HandlerErrorType where
  "HandlerErrorTypeOperationCanceled = ''OPERATION_CANCELED''"
definition HandlerErrorTypeOperationFailed :: HandlerErrorType where
  "HandlerErrorTypeOperationFailed = ''OPERATION_FAILED''"
definition HandlerErrorTypeInternal :: HandlerErrorType where
  "HandlerErrorTypeInternal = ''INTERNAL''"
definition HandlerErrorTypeApplicationError :: HandlerErrorType where
  "HandlerErrorTypeApplicationError = ''APPLICATION_ERROR''"
definition HandlerErrorTypeApplicationTimeout :: HandlerErrorType where
  "HandlerErrorTypeApplicationTimeout = ''APPLICATION_TIMEOUT''"
definition HandlerErrorTypeUnauthenticated :: HandlerErrorType where
  "HandlerErrorTypeUnauthenticated = ''UNAUTHENTICATED''"
definition HandlerErrorTypeUnauthorized :: HandlerErrorType where
  "HandlerErrorTypeUnauthorized = ''UNAUTHORIZED''"
definition HandlerErrorTypeBadRequest :: HandlerErrorType where
  "HandlerErrorTypeBadRequest = ''BAD_REQUEST''"
definition HandlerErrorTypeNotFound :: HandlerErrorType where
  "HandlerErrorTypeNotFound = ''NOT_FOUND''"
definition HandlerErrorTypeNotImplemented :: HandlerErrorType where
  "HandlerErrorTypeNotImplemented = ''NOT_IMPLEMENTED''"

text \<open>
  Modelled from the spec: the operation states, the header names, the content type and the
  two protocol status codes are constants of the package that server.go uses and another
  file declares. Section 3 gives the state literals, section 6 the headers and the codes
  (\<open>412\<close> still running, \<open>424\<close> completed unsuccessfully), section 4.2 the \<open>wait\<close>
  and \<open>callback\<close> query parameters.
\<close>

type_synonym OperationState = string

definition OperationStateRunning :: OperationState where
  "OperationStateRunning = ''running''"
definition OperationStateSucceeded :: OperationState where
  "OperationStateSucceeded = ''succeeded''"
definition OperationStateFailed :: OperationState where
  "OperationStateFailed = ''failed''"
definition OperationStateCanceled :: OperationState where
  "OperationStateCanceled = ''canceled''"

definition headerContentType :: string where
  "headerContentType = ''Content-Type''"
definition headerOperationState :: string where
  "headerOperationState = ''Nexus-Operation-State''"
definition headerRequestID :: string where
  "headerRequestID = ''Nexus-Request-Id''"
definition contentTypeJSON :: string where
  "contentTypeJSON = ''application/json''"
definition queryWait :: string where
  "queryWait = ''wait''"
definition queryCallbackURL :: string where
  "queryCallbackURL = ''callback''"
definition statusOperationRunning :: nat where
  "statusOperationRunning = 412"
definition statusOperationFailed :: nat where
  "statusOperationFailed = 424"

text \<open>The status codes of \<^verbatim>\<open>net/http\<close> that server.go names.\<close>

definition http_StatusOK :: nat where "http_StatusOK = 200"
definition http_StatusCreated :: nat where "http_StatusCreated = 201"
definition http_StatusAccepted :: nat where "http_StatusAccepted = 202"
definition http_StatusBadRequest :: nat where "http_StatusBadRequest = 400"
definition http_StatusUnauthorized :: nat where "http_StatusUnauthorized = 401"
definition http_StatusForbidden :: nat where "http_StatusForbidden = 403"
definition http_StatusNotFound :: nat where "http_StatusNotFound = 404"
definition http_StatusRequestTimeout :: nat where "http_StatusRequestTimeout = 408"
definition http_StatusInternalServerError :: nat where "http_StatusInternalServerError = 500"
definition http_StatusNotImplemented :: nat where "http_StatusNotImplemented = 501"

subsection \<open>Failure, OperationInfo and their JSON form\<close>

text \<open>
  Modelled from the spec: the \<^verbatim>\<open>Failure\<close> and \<^verbatim>\<open>OperationInfo\<close> structs are declared
  outside server.go. Section 3 gives their fields, section 6 their JSON form:
  \<^verbatim>\<open>{ "message": string, "metadata"?: object<string,string>, "details"?: base64-string }\<close>
  and \<^verbatim>\<open>{ "id": string, "state": string }\<close>. The metadata map is an association list
  with distinct keys; an empty map and empty details are left out of the JSON.
\<close>

record Failure =
  Message :: string
  Metadata :: "(string \<times> string) list"
  Details :: string

record OperationInfo =
  ID :: string
  State :: OperationState

text \<open>
  \<^verbatim>\<open>json.Marshal\<close> of a Go string (encoding/json of Go 1.21, the release that brought
  \<^verbatim>\<open>log/slog\<close>): printable ASCII is copied, except that the quote and the backslash are
  escaped and \<^verbatim>\<open><\<close>, \<^verbatim>\<open>>\<close>, \<^verbatim>\<open>&\<close> and the control characters are written
  as six-character hexadecimal escapes; well-formed UTF-8 is copied, except U+2028 and
  U+2029; any other byte becomes the escape of U+FFFD.
\<close>

definition dquote :: char where "dquote = CHR 0x22"
definition backslash :: char where "backslash = CHR 0x5C"

definition hexdigit :: "nat \<Rightarrow> char" where
  "hexdigit n = ''0123456789abcdef'' ! (n mod 16)"

definition htmlSafe :: "nat \<Rightarrow> bool" where
  "htmlSafe b \<longleftrightarrow> 32 \<le> b \<and> b < 128 \<and> b \<noteq> 34 \<and> b \<noteq> 38 \<and> b \<noteq> 60 \<and> b \<noteq> 62 \<and> b \<noteq> 92"

definition escapeASCII :: "char \<Rightarrow> string" where
  "escapeASCII c =
     (let b = (of_char c :: nat) in
      if htmlSafe b then [c]
      else if b = 92 \<or> b = 34 then [backslash, c]
      else if b = 10 then [backslash, CHR ''n'']
      else if b = 13 then [backslash, CHR ''r'']
      else if b = 9 then [backslash, CHR ''t'']
      else [backslash, CHR ''u'', CHR ''0'', CHR ''0'', hexdigit (b div 16), hexdigit b])"

definition continuation :: "nat \<Rightarrow> bool" where
  "continuation b \<longleftrightarrow> 128 \<le> b \<and> b < 192"

text \<open>The length of the well-formed UTF-8 sequence at the head of the bytes; 0 when there is none.\<close>

fun runeLen :: "nat list \<Rightarrow> nat" where
  "runeLen [] = 0"
| "runeLen (b0 # bs) =
     (if 194 \<le> b0 \<and> b0 \<le> 223 then
        (case bs of b1 # _ \<Rightarrow> if continuation b1 then 2 else 0 | _ \<Rightarrow> 0)
      else if 224 \<le> b0 \<and> b0 \<le> 239 then
        (case bs of
           b1 # b2 # _ \<Rightarrow>
             if (if b0 = 224 then 160 else 128) \<le> b1 \<and> b1 \<le> (if b0 = 237 then 159 else 191)
                \<and> continuation b2
             then 3 else 0
         | _ \<Rightarrow> 0)
      else if 240 \<le> b0 \<and> b0 \<le> 244 then
        (case bs of
           b1 # b2 # b3 # _ \<Rightarrow>
             if (if b0 = 240 then 144 else 128) \<le> b1 \<and> b1 \<le> (if b0 = 244 then 143 else 191)
                \<and> continuation b2 \<and> continuation b3
             then 4 else 0
         | _ \<Rightarrow> 0)
      else 0)"

fun escapeString :: "string \<Rightarrow> string" where
  "escapeString [] = []"
| "escapeString (c # cs) =
     (if (of_char c :: nat) < 128 then escapeASCII c @ escapeString cs
      else if runeLen (map of_char (c # cs)) = 0
        then [backslash, CHR ''u'', CHR ''f'', CHR ''f'', CHR ''f'', CHR ''d''] @ escapeString cs
      else if map of_char (take 3 (c # cs)) = [226, 128, 168 :: nat]
        then [backslash, CHR ''u'', CHR ''2'', CHR ''0'', CHR ''2'', CHR ''8''] @ escapeString (drop 2 cs)
      else if map of_char (take 3 (c # cs)) = [226, 128, 169 :: nat]
        then [backslash, CHR ''u'', CHR ''2'', CHR ''0'', CHR ''2'', CHR ''9''] @ escapeString (drop 2 cs)
      else take (runeLen (map of_char (c # cs))) (c # cs)
           @ escapeString (drop (runeLen (map of_char (c # cs)) - 1) cs))"

definition json_string :: "string \<Rightarrow> string" where
  "json_string s = [dquote] @ escapeString s @ [dquote]"

fun joinWith :: "string \<Rightarrow> string list \<Rightarrow> string" where
  "joinWith sep [] = []"
| "joinWith sep [x] = x"
| "joinWith sep (x # y # xs) = x @ sep @ joinWith sep (y # xs)"

text \<open>A map is written as a JSON object with its keys in sorted order.\<close>

definition json_stringMap :: "(string \<times> string) list \<Rightarrow> string" where
  "json_stringMap m =
     ''{'' @ joinWith '','' (map (\<lambda>(k, v). json_string k @ '':'' @ json_string v) (sort_key fst m)) @ ''}''"

text \<open>Bytes are written as a base64 string (the standard alphabet, padded).\<close>

definition base64digit :: "nat \<Rightarrow> char" where
  "base64digit n =
     ''ABCDEFGHIJKLMNOPQRSTUVWXYZabcdefghijklmnopqrstuvwxyz0123456789+/'' ! (n mod 64)"

fun base64 :: "nat list \<Rightarrow> string" where
  "base64 [] = []"
| "base64 [a] = [base64digit (a div 4), base64digit ((a mod 4) * 16), CHR ''='', CHR ''='']"
| "base64 [a, b] =
     [base64digit (a div 4), base64digit ((a mod 4) * 16 + b div 16),
      base64digit ((b mod 16) * 4), CHR ''='']"
| "base64 (a # b # c # bs) =
     [base64digit (a div 4), base64digit ((a mod 4) * 16 + b div 16),
      base64digit ((b mod 16) * 4 + c div 64), base64digit c] @ base64 bs"

definition json_bytes :: "string \<Rightarrow> string" where
  "json_bytes bs = [dquote] @ base64 (map of_char bs) @ [dquote]"

definition json_Failure :: "Failure \<Rightarrow> string" where
  \<open>json_Failure f =
     ''{"message":'' @ json_string (Message f)
     @ (if Metadata f = [] then [] else '',"metadata":'' @ json_stringMap (Metadata f))
     @ (if Details f = [] then [] else '',"details":'' @ json_bytes (Details f))
     @ ''}''\<close>

definition json_OperationInfo :: "OperationInfo \<Rightarrow> string" where
  \<open>json_OperationInfo info =
     ''{"id":'' @ json_string (ID info) @ '',"state":'' @ json_string (State info) @ ''}''\<close>

subsection \<open>Errors\<close>

text \<open>
  A Go \<^verbatim>\<open>error\<close> value, as far as \<^verbatim>\<open>errors.As\<close> and \<^verbatim>\<open>errors.Is\<close> can tell one
  from another: the sentinel \<^verbatim>\<open>ErrOperationStillRunning\<close>, a
  \<^verbatim>\<open>*UnsuccessfulOperationError\<close> (state and failure), a \<^verbatim>\<open>*HandlerError\<close> (type and
  optional failure, server.go lines 124-129), any other error with its message
  (\<^verbatim>\<open>errors.New\<close>), and an error that wraps another one (\<^verbatim>\<open>fmt.Errorf\<close> with
  \<^verbatim>\<open>%w\<close>), with its own message.
\<close>

datatype error =
    ErrOperationStillRunning
  | UnsuccessfulOperationError OperationState Failure
  | HandlerError HandlerErrorType "Failure option"
  | errorString string
  | wrapError string error

text \<open>\<^verbatim>\<open>(*HandlerError).Error\<close>, server.go lines 132-141.\<close>

definition HandlerError_Error :: "HandlerErrorType \<Rightarrow> Failure option \<Rightarrow> string" where
  "HandlerError_Error Type failure =
     (let typ = (if length Type = 0 then HandlerErrorTypeInternal else Type) in
      case failure of
        Some f \<Rightarrow> ''handler error ('' @ typ @ ''): '' @ Message f
      | None \<Rightarrow> ''handler error ('' @ typ @ '')'')"

text \<open>\<^verbatim>\<open>newBadRequestError\<close>, server.go lines 143-150, with the message already formatted.\<close>

definition newBadRequestError :: "string \<Rightarrow> error" where
  "newBadRequestError message =
     HandlerError HandlerErrorTypeBadRequest
       (Some \<lparr>Message = message, Metadata = [], Details = []\<rparr>)"

text \<open>
  \<^verbatim>\<open>errors.As\<close> walks the chain of wrapped errors and yields the first one of the target's
  type; \<^verbatim>\<open>errors.Is\<close> looks for the sentinel itself in the chain.
\<close>

fun errors_As_UnsuccessfulOperationError :: "error \<Rightarrow> (OperationState \<times> Failure) option" where
  "errors_As_UnsuccessfulOperationError (UnsuccessfulOperationError st f) = Some (st, f)"
| "errors_As_UnsuccessfulOperationError (wrapError m e) = errors_As_UnsuccessfulOperationError e"
| "errors_As_UnsuccessfulOperationError e = None"

fun errors_As_HandlerError :: "error \<Rightarrow> (HandlerErrorType \<times> Failure option) option" where
  "errors_As_HandlerError (HandlerError t f) = Some (t, f)"
| "errors_As_HandlerError (wrapError m e) = errors_As_HandlerError e"
| "errors_As_HandlerError e = None"

fun errors_Is_ErrOperationStillRunning :: "error \<Rightarrow> bool" where
  "errors_Is_ErrOperationStillRunning ErrOperationStillRunning = True"
| "errors_Is_ErrOperationStillRunning (wrapError m e) = errors_Is_ErrOperationStillRunning e"
| "errors_Is_ErrOperationStillRunning e = False"

subsection \<open>The response writer and the logger\<close>

text \<open>
  \<^verbatim>\<open>textproto.CanonicalMIMEHeaderKey\<close>, which \<^verbatim>\<open>Header().Set\<close> applies to the key: a key
  made of token characters gets an upper-case letter first and after each hyphen and
  lower-case letters elsewhere; any other key is left as it is.
\<close>

definition validHeaderFieldByte :: "char \<Rightarrow> bool" where
  "validHeaderFieldByte c \<longleftrightarrow>
     (let b = (of_char c :: nat) in
      (48 \<le> b \<and> b \<le> 57) \<or> (65 \<le> b \<and> b \<le> 90) \<or> (97 \<le> b \<and> b \<le> 122)
      \<or> c \<in> set ''!#$%&*+-.^_`|~'' \<or> b = 39)"

fun canonical :: "bool \<Rightarrow> string \<Rightarrow> string" where
  "canonical upper [] = []"
| "canonical upper (c # cs) =
     (let b = (of_char c :: nat);
          c' = (if upper \<and> 97 \<le> b \<and> b \<le> 122 then char_of (b - 32)
                else if \<not> upper \<and> 65 \<le> b \<and> b \<le> 90 then char_of (b + 32)
                else c)
      in c' # canonical (c' = CHR ''-'') cs)"

definition CanonicalMIMEHeaderKey :: "string \<Rightarrow> string" where
  "CanonicalMIMEHeaderKey s = (if list_all validHeaderFieldByte s then canonical True s else s)"

text \<open>
  An \<^verbatim>\<open>http.ResponseWriter\<close>, with the fields of \<^verbatim>\<open>httptest.ResponseRecorder\<close>, which the
  tests pass to the failure writer: the header map the handler edits, whether the status
  line has been written, the status code, the headers as they stood when the status line
  was written (the ones that are sent), and the body. Only \<^verbatim>\<open>Set\<close> is used on the header
  map, so a key holds one value.
\<close>

record ResponseWriter =
  HeaderMap :: "string \<rightharpoonup> string"
  wroteHeader :: bool
  Code :: nat
  snapHeader :: "string \<rightharpoonup> string"
  Body :: string

definition NewRecorder :: ResponseWriter where
  "NewRecorder =
     \<lparr>HeaderMap = Map.empty, wroteHeader = False, Code = 200, snapHeader = Map.empty, Body = []\<rparr>"

definition Header_Set :: "string \<Rightarrow> string \<Rightarrow> ResponseWriter \<Rightarrow> ResponseWriter" where
  "Header_Set key v w = w\<lparr>HeaderMap := (HeaderMap w)(CanonicalMIMEHeaderKey key \<mapsto> v)\<rparr>"

text \<open>A second \<^verbatim>\<open>WriteHeader\<close> changes nothing; headers set after the first are not sent.\<close>

definition WriteHeader :: "nat \<Rightarrow> ResponseWriter \<Rightarrow> ResponseWriter" where
  "WriteHeader code w =
     (if wroteHeader w then w
      else w\<lparr>wroteHeader := True, Code := code, snapHeader := HeaderMap w\<rparr>)"

text \<open>
  \<^verbatim>\<open>Write\<close> writes the status line with \<open>200\<close> first when no status line has been
  written. It returns the error of the write: the recorder has none.
\<close>

definition Write :: "string \<Rightarrow> ResponseWriter \<Rightarrow> ResponseWriter \<times> error option" where
  "Write bytes w =
     (let w' = (if wroteHeader w then w else WriteHeader http_StatusOK w)
      in (w'\<lparr>Body := Body w' @ bytes\<rparr>, None))"

text \<open>
  A \<^verbatim>\<open>*slog.Logger\<close> is known by its identity: the process-wide default or one the caller
  made. A log record keeps the logger it was handed to, its level, its message and its
  attributes.
\<close>

datatype Logger = slog_Default | slog_New nat

datatype Level = LevelWarn | LevelError

datatype Attr = ErrorAttr string error | StringAttr string string

datatype Record = Record Logger Level string "Attr list"

text \<open>
  What serving a request leaves behind: the response writer, the log records, and the
  calls made to the user's handler (the name of the method, the operation and the
  operation ID).
\<close>

record served =
  writer :: ResponseWriter
  records :: "Record list"
  calls :: "(string \<times> string \<times> string) list"

definition serving :: "ResponseWriter \<Rightarrow> served" where
  "serving w = \<lparr>writer = w, records = [], calls = []\<rparr>"

record baseHTTPHandler =
  logger :: Logger

definition logger_Error :: "'a baseHTTPHandler_scheme \<Rightarrow> string \<Rightarrow> Attr list \<Rightarrow> served \<Rightarrow> served" where
  "logger_Error h m as s = s\<lparr>records := records s @ [Record (logger h) LevelError m as]\<rparr>"

definition logger_Warn :: "'a baseHTTPHandler_scheme \<Rightarrow> string \<Rightarrow> Attr list \<Rightarrow> served \<Rightarrow> served" where
  "logger_Warn h m as s = s\<lparr>records := records s @ [Record (logger h) LevelWarn m as]\<rparr>"

definition on_writer :: "(ResponseWriter \<Rightarrow> ResponseWriter) \<Rightarrow> served \<Rightarrow> served" where
  "on_writer f s = s\<lparr>writer := f (writer s)\<rparr>"

subsection \<open>The failure writer\<close>

text \<open>
  \<^verbatim>\<open>json.Marshal\<close> of a \<^verbatim>\<open>*Failure\<close> and of an \<^verbatim>\<open>OperationInfo\<close>: the bytes, or an
  error. With the fields that section 3 of the specification gives the two structs
  (strings, a map of strings, bytes) there is no value that fails to marshal; the branch
  of the callers for the error is kept. A nil \<^verbatim>\<open>*OperationInfo\<close> is written \<^verbatim>\<open>null\<close>.
\<close>

definition json_Marshal_Failure :: "Failure \<Rightarrow> error + string" where
  "json_Marshal_Failure f = Inr (json_Failure f)"

definition json_Marshal_OperationInfo :: "OperationInfo option \<Rightarrow> error + string" where
  "json_Marshal_OperationInfo info =
     (case info of None \<Rightarrow> Inr ''null'' | Some i \<Rightarrow> Inr (json_OperationInfo i))"

text \<open>
  The statement that ends three of the functions (server.go lines 54-56, 251-253 and
  358-360): write the bytes, and log the error of the write if there is one.
\<close>

definition writer_Write :: "'a baseHTTPHandler_scheme \<Rightarrow> string \<Rightarrow> served \<Rightarrow> served" where
  "writer_Write h bytes s =
     (case Write bytes (writer s) of
        (w, Some err) \<Rightarrow>
          logger_Error h ''failed to write response body'' [ErrorAttr ''error'' err]
            (s\<lparr>writer := w\<rparr>)
      | (w, None) \<Rightarrow> s\<lparr>writer := w\<rparr>)"

text \<open>
  The end of \<^verbatim>\<open>writeFailure\<close>, server.go lines 238-253, from the failure and the status
  code that the discrimination of the error has chosen.
\<close>

definition writeFailure_send ::
  "'a baseHTTPHandler_scheme \<Rightarrow> Failure option \<Rightarrow> nat \<Rightarrow> served \<Rightarrow> served" where
  "writeFailure_send h failure statusCode s =
     (case (case failure of
              None \<Rightarrow> Inr ([], s)
            | Some f \<Rightarrow>
                (case json_Marshal_Failure f of
                   Inl err \<Rightarrow>
                     Inl (on_writer (WriteHeader http_StatusInternalServerError)
                            (logger_Error h ''failed to marshal failure'' [ErrorAttr ''error'' err] s))
                 | Inr bytes \<Rightarrow>
                     Inr (bytes, on_writer (Header_Set headerContentType contentTypeJSON) s))) of
        Inl s' \<Rightarrow> s'
      | Inr (bytes, s') \<Rightarrow> writer_Write h bytes (on_writer (WriteHeader statusCode) s'))"

text \<open>\<^verbatim>\<open>(*baseHTTPHandler).writeFailure\<close>, server.go lines 187-254.\<close>

definition writeFailure :: "'a baseHTTPHandler_scheme \<Rightarrow> error \<Rightarrow> served \<Rightarrow> served" where
  "writeFailure h err s =
     (case errors_As_UnsuccessfulOperationError err of
        Some (operationState, failure) \<Rightarrow>
          if operationState = OperationStateFailed \<or> operationState = OperationStateCanceled
          then writeFailure_send h (Some failure) statusOperationFailed
                 (on_writer (Header_Set headerOperationState operationState) s)
          else on_writer (WriteHeader http_StatusInternalServerError)
                 (logger_Error h ''unexpected operation state'' [StringAttr ''state'' operationState] s)
      | None \<Rightarrow>
          (case errors_As_HandlerError err of
             Some (Type, failure) \<Rightarrow>
               if Type = HandlerErrorTypeOperationCanceled then
                 writeFailure_send h failure statusOperationFailed
                   (on_writer (Header_Set headerOperationState OperationStateCanceled) s)
               else if Type = HandlerErrorTypeApplicationTimeout then
                 writeFailure_send h failure 521 s
               else if Type = HandlerErrorTypeApplicationError then
                 writeFailure_send h failure 520 s
               else if Type = HandlerErrorTypeBadRequest then
                 writeFailure_send h failure http_StatusBadRequest s
               else if Type = HandlerErrorTypeUnauthorized then
                 writeFailure_send h failure http_StatusForbidden s
               else if Type = HandlerErrorTypeUnauthenticated then
                 writeFailure_send h failure http_StatusUnauthorized s
               else if Type = HandlerErrorTypeNotFound then
                 writeFailure_send h failure http_StatusNotFound s
               else if Type = HandlerErrorTypeNotImplemented then
                 writeFailure_send h failure http_StatusNotImplemented s
               else if Type = HandlerErrorTypeInternal then
                 writeFailure_send h failure http_StatusInternalServerError s
               else
                 writeFailure_send h failure http_StatusInternalServerError
                   (logger_Error h ''unexpected handler error type'' [StringAttr ''type'' Type] s)
           | None \<Rightarrow>
               writeFailure_send h
                 (Some \<lparr>Message = ''internal server error'', Metadata = [], Details = []\<rparr>)
                 http_StatusInternalServerError
                 (logger_Error h ''handler failed'' [ErrorAttr ''error'' err] s)))"

subsection \<open>Streams, codecs and the user's handler\<close>

text \<open>
  An \<^verbatim>\<open>io.Reader\<close>: the bytes it yields, the error it ends with in place of the end of
  the file (if any), and whether it is an \<^verbatim>\<open>io.Closer\<close> too.
\<close>

record Reader =
  content :: string
  fails :: "error option"
  isCloser :: bool

record Stream =
  Header :: "(string \<times> string) list"
  Reader :: Reader

text \<open>A value of type \<^verbatim>\<open>any\<close>: a \<^verbatim>\<open>*Stream\<close>, or a value of any other type.\<close>

datatype 'v any = StreamPtr Stream | Value 'v

text \<open>The \<^verbatim>\<open>Codec\<close> interface, of which server.go calls \<^verbatim>\<open>Serialize\<close>.\<close>

record 'v Codec =
  Serialize :: "'v any \<Rightarrow> error + Stream"

record 'v EncodedStream =
  codec :: "'v Codec option"
  stream :: Stream

datatype 'v OperationResponse =
    OperationResponseSync "'v any"
  | OperationResponseAsync string

text \<open>
  An \<^verbatim>\<open>http.Header\<close> and a \<^verbatim>\<open>url.Values\<close> are maps from a key to a list of values, with
  the \<^verbatim>\<open>Get\<close> of each: the first value of the key, or the empty string when the key is
  absent or has no value. \<^verbatim>\<open>http.Header.Get\<close> looks up the canonical form of the key.
\<close>

type_synonym Values = "(string \<times> string list) list"

definition Values_Get :: "Values \<Rightarrow> string \<Rightarrow> string" where
  "Values_Get vs key = (case map_of vs key of Some (v # _) \<Rightarrow> v | _ \<Rightarrow> [])"

definition Header_Get :: "Values \<Rightarrow> string \<Rightarrow> string" where
  "Header_Get header key = Values_Get header (CanonicalMIMEHeaderKey key)"

text \<open>A \<^verbatim>\<open>time.Duration\<close> is a number of nanoseconds.\<close>

type_synonym Duration = int

definition time_Minute :: Duration where
  "time_Minute = 60 * 1000000000"

datatype Context = request_Context | context_WithTimeout Context Duration

record StartOperationOptions =
  RequestID :: string
  CallbackURL :: string
  StartOperation_Header :: Values

record GetOperationResultOptions =
  GetOperationResult_Header :: Values
  Wait :: Duration

record GetOperationInfoOptions =
  GetOperationInfo_Header :: Values

record CancelOperationOptions =
  CancelOperation_Header :: Values

text \<open>
  The \<^verbatim>\<open>Handler\<close> interface that the user implements (server.go lines 66-93). A method
  returns its error or its value. \<^verbatim>\<open>StartOperation\<close> and \<^verbatim>\<open>GetOperationInfo\<close> may return
  a nil value with a nil error. \<^verbatim>\<open>GetOperationResult\<close> takes time: with its return comes
  whether \<^verbatim>\<open>ctx.Err()\<close> is non-nil once it has returned, which the clock and the client
  decide.
\<close>

record 'v Handler =
  StartOperation ::
    "Context \<Rightarrow> string \<Rightarrow> 'v EncodedStream \<Rightarrow> StartOperationOptions
      \<Rightarrow> error + 'v OperationResponse option"
  GetOperationResult ::
    "Context \<Rightarrow> string \<Rightarrow> string \<Rightarrow> GetOperationResultOptions \<Rightarrow> (error + 'v any) \<times> bool"
  GetOperationInfo ::
    "Context \<Rightarrow> string \<Rightarrow> string \<Rightarrow> GetOperationInfoOptions \<Rightarrow> error + OperationInfo option"
  CancelOperation ::
    "Context \<Rightarrow> string \<Rightarrow> string \<Rightarrow> CancelOperationOptions \<Rightarrow> error option"

text \<open>\<^verbatim>\<open>HandlerOptions\<close>, server.go lines 387-399, and \<^verbatim>\<open>httpHandler\<close>, lines 156-159.\<close>

record 'v HandlerOptions =
  Handler :: "'v Handler"
  Logger :: "Logger option"
  GetResultTimeout :: Duration
  Codec :: "'v Codec option"

record 'v httpHandler = baseHTTPHandler +
  options :: "'v HandlerOptions"

definition called :: "string \<Rightarrow> string \<Rightarrow> string \<Rightarrow> served \<Rightarrow> served" where
  "called method operation operationID s = s\<lparr>calls := calls s @ [(method, operation, operationID)]\<rparr>"

subsection \<open>Writing a result\<close>

datatype panic = NilPointerDereference | IndexOutOfRange

text \<open>Reading the field \<^verbatim>\<open>Reader\<close> or \<^verbatim>\<open>Header\<close> through a \<^verbatim>\<open>*Stream\<close> that may be nil.\<close>

definition Stream_Reader :: "Stream option \<Rightarrow> panic + Reader" where
  "Stream_Reader p = (case p of None \<Rightarrow> Inl NilPointerDereference | Some st \<Rightarrow> Inr (Reader st))"

definition Stream_Header :: "Stream option \<Rightarrow> panic + (string \<times> string) list" where
  "Stream_Header p = (case p of None \<Rightarrow> Inl NilPointerDereference | Some st \<Rightarrow> Inr (Header st))"

text \<open>
  \<^verbatim>\<open>io.Copy\<close> to the writer: the bytes of the reader are written (nothing is, when there
  are none), and the error is that of the write or else that of the reader.
\<close>

definition io_Copy :: "ResponseWriter \<Rightarrow> Reader \<Rightarrow> ResponseWriter \<times> error option" where
  "io_Copy w src =
     (case (if content src = [] then (w, None) else Write (content src) w) of
        (w', Some err) \<Rightarrow> (w', Some err)
      | (w', None) \<Rightarrow> (w', fails src))"

text \<open>
  \<^verbatim>\<open>(*httpHandler).writeResult\<close>, server.go lines 161-185. The local \<^verbatim>\<open>stream\<close> is nil
  when line 164 reads \<^verbatim>\<open>stream.Reader\<close>; \<^verbatim>\<open>s\<close> is assigned to it on line 169 only. The
  deferred \<^verbatim>\<open>Close\<close> acts on the reader alone.
\<close>

definition writeResult :: "'v httpHandler \<Rightarrow> 'v any \<Rightarrow> served \<Rightarrow> panic + served" where
  "writeResult h result s =
     (let stream = (None :: Stream option) in
      case (case result of
              StreamPtr s0 \<Rightarrow>
                (case Stream_Reader stream of
                   Inl p \<Rightarrow> Inl p
                 | Inr rd \<Rightarrow> Inr (Inr (Some s0)))
            | Value v \<Rightarrow>
                (case Codec (options h) of
                   None \<Rightarrow> Inl NilPointerDereference
                 | Some c \<Rightarrow>
                     (case Serialize c result of
                        Inl err \<Rightarrow>
                          Inr (Inl (writeFailure h
                                 (wrapError ''failed to serialize handler result: %w'' err) s))
                      | Inr st \<Rightarrow> Inr (Inr (Some st))))) of
        Inl p \<Rightarrow> Inl p
      | Inr (Inl s') \<Rightarrow> Inr s'
      | Inr (Inr stream') \<Rightarrow>
          (case Stream_Header stream' of
             Inl p \<Rightarrow> Inl p
           | Inr hs \<Rightarrow>
               (case Stream_Reader stream' of
                  Inl p \<Rightarrow> Inl p
                | Inr rd \<Rightarrow>
                    (case io_Copy (fold (\<lambda>(k, v). Header_Set k v) hs (writer s)) rd of
                       (w, Some err) \<Rightarrow>
                         Inr (logger_Error h ''failed to write response body''
                                [ErrorAttr ''error'' err] (s\<lparr>writer := w\<rparr>))
                     | (w, None) \<Rightarrow> Inr (s\<lparr>writer := w\<rparr>)))))"

text \<open>
  \<^verbatim>\<open>applyToHTTPResponse\<close> of the two implementations of \<^verbatim>\<open>OperationResponse\<close>, server.go
  lines 30-32 and 39-57.
\<close>

definition applyToHTTPResponse ::
  "'v OperationResponse \<Rightarrow> 'v httpHandler \<Rightarrow> served \<Rightarrow> panic + served" where
  "applyToHTTPResponse r handler s =
     (case r of
        OperationResponseSync v \<Rightarrow> writeResult handler v s
      | OperationResponseAsync operationID \<Rightarrow>
          (let info = \<lparr>ID = operationID, State = OperationStateRunning\<rparr> in
           case json_Marshal_OperationInfo (Some info) of
             Inl err \<Rightarrow>
               Inr (on_writer (WriteHeader http_StatusInternalServerError)
                      (logger_Error handler ''failed to serialize operation info''
                         [ErrorAttr ''error'' err] s))
           | Inr bytes \<Rightarrow>
               Inr (writer_Write handler bytes
                      (on_writer (WriteHeader http_StatusCreated)
                         (on_writer (Header_Set headerContentType contentTypeJSON) s)))))"

subsection \<open>Paths\<close>

text \<open>
  The functions of \<^verbatim>\<open>path\<close> and \<^verbatim>\<open>net/url\<close> that the handlers apply to the escaped path
  of the request. \<^verbatim>\<open>path.Split\<close> cuts after the last slash. \<^verbatim>\<open>path.Base\<close> is the last
  element, without trailing slashes. \<^verbatim>\<open>path.Clean\<close> drops empty and \<^verbatim>\<open>.\<close> elements,
  and each \<^verbatim>\<open>..\<close> with the element before it (a \<^verbatim>\<open>..\<close> that begins a rooted path is
  dropped, one that begins another path is kept). \<^verbatim>\<open>path.Dir\<close> is the cleaned first
  half of the split. \<^verbatim>\<open>url.PathUnescape\<close> decodes each \<^verbatim>\<open>%XX\<close>, and fails on a
  \<^verbatim>\<open>%\<close> that two hexadecimal digits do not follow.
\<close>

definition path_Split :: "string \<Rightarrow> string \<times> string" where
  "path_Split p =
     (let file = rev (takeWhile (\<lambda>c. c \<noteq> CHR ''/'') (rev p))
      in (take (length p - length file) p, file))"

definition path_Base :: "string \<Rightarrow> string" where
  "path_Base p =
     (if p = [] then ''.''
      else (let stripped = rev (dropWhile (\<lambda>c. c = CHR ''/'') (rev p));
                base = snd (path_Split stripped)
            in if base = [] then ''/'' else base))"

fun elements :: "string \<Rightarrow> string \<Rightarrow> string list" where
  "elements acc [] = [rev acc]"
| "elements acc (c # cs) =
     (if c = CHR ''/'' then rev acc # elements [] cs else elements (c # acc) cs)"

fun cleaned :: "bool \<Rightarrow> string list \<Rightarrow> string list \<Rightarrow> string list" where
  "cleaned rooted out [] = rev out"
| "cleaned rooted out (e # es) =
     (if e = [] \<or> e = ''.'' then cleaned rooted out es
      else if e = ''..'' then
        (case out of
           t # ts \<Rightarrow> if t = ''..'' then cleaned rooted (e # out) es else cleaned rooted ts es
         | [] \<Rightarrow> if rooted then cleaned rooted out es else cleaned rooted (e # out) es)
      else cleaned rooted (e # out) es)"

definition path_Clean :: "string \<Rightarrow> string" where
  "path_Clean p =
     (let rooted = (take 1 p = ''/'');
          r = (if rooted then ''/'' else []) @ joinWith ''/'' (cleaned rooted [] (elements [] p))
      in if r = [] then ''.'' else r)"

definition path_Dir :: "string \<Rightarrow> string" where
  "path_Dir p = path_Clean (fst (path_Split p))"

definition ishex :: "char \<Rightarrow> bool" where
  "ishex c \<longleftrightarrow>
     (let b = (of_char c :: nat) in
      (48 \<le> b \<and> b \<le> 57) \<or> (97 \<le> b \<and> b \<le> 102) \<or> (65 \<le> b \<and> b \<le> 70))"

definition unhex :: "char \<Rightarrow> nat" where
  "unhex c =
     (let b = (of_char c :: nat) in
      if 48 \<le> b \<and> b \<le> 57 then b - 48
      else if 97 \<le> b \<and> b \<le> 102 then b - 97 + 10
      else if 65 \<le> b \<and> b \<le> 70 then b - 65 + 10
      else 0)"

fun url_PathUnescape :: "string \<Rightarrow> string option" where
  "url_PathUnescape [] = Some []"
| "url_PathUnescape (c # cs) =
     (if c = CHR ''%'' then
        (case cs of
           a # b # rest \<Rightarrow>
             if ishex a \<and> ishex b
             then map_option ((#) (char_of (unhex a * 16 + unhex b))) (url_PathUnescape rest)
             else None
         | _ \<Rightarrow> None)
      else map_option ((#) c) (url_PathUnescape cs))"

definition strings_HasPrefix :: "string \<Rightarrow> string \<Rightarrow> bool" where
  "strings_HasPrefix s prefix \<longleftrightarrow> take (length prefix) s = prefix"

subsection \<open>The four endpoints\<close>

text \<open>
  An \<^verbatim>\<open>*http.Request\<close>, as far as the handlers read it: the escaped path and the query
  of its URL, its header and its body.
\<close>

record Request =
  URL_EscapedPath :: string
  URL_Query :: Values
  Request_Header :: Values
  Request_Body :: Reader

text \<open>
  The loop of \<^verbatim>\<open>startOperation\<close>, server.go lines 267-272: the first value of each
  header whose name starts with \<^verbatim>\<open>Content-\<close>. Indexing an empty list of values panics.
\<close>

fun contentHeaders :: "Values \<Rightarrow> panic + (string \<times> string) list" where
  "contentHeaders [] = Inr []"
| "contentHeaders ((k, vs) # rest) =
     (if strings_HasPrefix k ''Content-'' then
        (case vs of
           [] \<Rightarrow> Inl IndexOutOfRange
         | v # _ \<Rightarrow>
             (case contentHeaders rest of Inl p \<Rightarrow> Inl p | Inr header \<Rightarrow> Inr ((k, v) # header)))
      else contentHeaders rest)"

text \<open>\<^verbatim>\<open>(*httpHandler).startOperation\<close>, server.go lines 256-286.\<close>

definition startOperation :: "'v httpHandler \<Rightarrow> Request \<Rightarrow> served \<Rightarrow> panic + served" where
  "startOperation h request s =
     (case url_PathUnescape (path_Base (URL_EscapedPath request)) of
        None \<Rightarrow> Inr (writeFailure h (newBadRequestError ''failed to parse URL path'') s)
      | Some operation \<Rightarrow>
          (let opts = \<lparr>RequestID = Header_Get (Request_Header request) headerRequestID,
                       CallbackURL = Values_Get (URL_Query request) queryCallbackURL,
                       StartOperation_Header = Request_Header request\<rparr>
           in case contentHeaders (Request_Header request) of
                Inl p \<Rightarrow> Inl p
              | Inr header \<Rightarrow>
                  (let input = \<lparr>codec = Codec (options h),
                                stream = \<lparr>Header = header, Reader = Request_Body request\<rparr>\<rparr>;
                       s' = called ''StartOperation'' operation [] s
                   in case StartOperation (Handler (options h)) request_Context operation input opts of
                        Inl err \<Rightarrow> Inr (writeFailure h err s')
                      | Inr None \<Rightarrow> Inl NilPointerDereference
                      | Inr (Some response) \<Rightarrow> applyToHTTPResponse response h s')))"

text \<open>
  \<^verbatim>\<open>(*httpHandler).getOperationResult\<close>, server.go lines 288-330. \<^verbatim>\<open>time.ParseDuration\<close>
  computes with floating point numbers; it is the parameter \<open>ParseDuration\<close>, which gives
  the duration of a literal or nothing when the literal is not one.
\<close>

definition getOperationResult ::
  "(string \<Rightarrow> Duration option) \<Rightarrow> 'v httpHandler \<Rightarrow> Request \<Rightarrow> served \<Rightarrow> panic + served" where
  "getOperationResult ParseDuration h request s =
     (case path_Split (path_Dir (URL_EscapedPath request)) of
        (prefix, operationIDEscaped) \<Rightarrow>
     case url_PathUnescape operationIDEscaped of
        None \<Rightarrow> Inr (writeFailure h (newBadRequestError ''failed to parse URL path'') s)
      | Some operationID \<Rightarrow>
     case url_PathUnescape (path_Base prefix) of
        None \<Rightarrow> Inr (writeFailure h (newBadRequestError ''failed to parse URL path'') s)
      | Some operation \<Rightarrow>
     let opts = \<lparr>GetOperationResult_Header = Request_Header request, Wait = 0\<rparr>;
         waitStr = Values_Get (URL_Query request) queryWait;
         ctx = request_Context
     in
     case (if waitStr \<noteq> [] then
             (case ParseDuration waitStr of
                None \<Rightarrow> None
              | Some waitDuration \<Rightarrow>
                  Some (opts\<lparr>Wait := waitDuration\<rparr>,
                        context_WithTimeout request_Context (GetResultTimeout (options h))))
           else Some (opts, ctx)) of
        None \<Rightarrow>
          Inr (writeFailure h (newBadRequestError ''invalid wait query parameter'')
                 (logger_Warn h ''invalid wait duration query parameter''
                    [StringAttr ''wait'' waitStr] s))
      | Some (opts, ctx) \<Rightarrow>
     case GetOperationResult (Handler (options h)) ctx operation operationID opts of
        (ret, ctx_Err) \<Rightarrow>
     let s' = called ''GetOperationResult'' operation operationID s in
     case ret of
        Inl err \<Rightarrow>
          if Wait opts > 0 \<and> ctx_Err then
            Inr (on_writer (WriteHeader http_StatusRequestTimeout) s')
          else if errors_Is_ErrOperationStillRunning err then
            Inr (on_writer (WriteHeader statusOperationRunning) s')
          else Inr (writeFailure h err s')
      | Inr result \<Rightarrow> writeResult h result s')"

text \<open>\<^verbatim>\<open>(*httpHandler).getOperationInfo\<close>, server.go lines 332-361.\<close>

definition getOperationInfo :: "'v httpHandler \<Rightarrow> Request \<Rightarrow> served \<Rightarrow> panic + served" where
  "getOperationInfo h request s =
     (case path_Split (URL_EscapedPath request) of
        (prefix, operationIDEscaped) \<Rightarrow>
     case url_PathUnescape operationIDEscaped of
        None \<Rightarrow> Inr (writeFailure h (newBadRequestError ''failed to parse URL path'') s)
      | Some operationID \<Rightarrow>
     case url_PathUnescape (path_Base prefix) of
        None \<Rightarrow> Inr (writeFailure h (newBadRequestError ''failed to parse URL path'') s)
      | Some operation \<Rightarrow>
     let opts = \<lparr>GetOperationInfo_Header = Request_Header request\<rparr>;
         s' = called ''GetOperationInfo'' operation operationID s
     in
     case GetOperationInfo (Handler (options h)) request_Context operation operationID opts of
        Inl err \<Rightarrow> Inr (writeFailure h err s')
      | Inr info \<Rightarrow>
          (case json_Marshal_OperationInfo info of
             Inl err \<Rightarrow>
               Inr (writeFailure h (wrapError ''failed to marshal operation info: %w'' err) s')
           | Inr bytes \<Rightarrow>
               Inr (writer_Write h bytes
                      (on_writer (Header_Set headerContentType contentTypeJSON) s'))))"

text \<open>\<^verbatim>\<open>(*httpHandler).cancelOperation\<close>, server.go lines 363-384.\<close>

definition cancelOperation :: "'v httpHandler \<Rightarrow> Request \<Rightarrow> served \<Rightarrow> panic + served" where
  "cancelOperation h request s =
     (case path_Split (path_Dir (URL_EscapedPath request)) of
        (prefix, operationIDEscaped) \<Rightarrow>
     case url_PathUnescape operationIDEscaped of
        None \<Rightarrow> Inr (writeFailure h (newBadRequestError ''failed to parse URL path'') s)
      | Some operationID \<Rightarrow>
     case url_PathUnescape (path_Base prefix) of
        None \<Rightarrow> Inr (writeFailure h (newBadRequestError ''failed to parse URL path'') s)
      | Some operation \<Rightarrow>
     let opts = \<lparr>CancelOperation_Header = Request_Header request\<rparr>;
         s' = called ''CancelOperation'' operation operationID s
     in
     case CancelOperation (Handler (options h)) request_Context operation operationID opts of
        Some err \<Rightarrow> Inr (writeFailure h err s')
      | None \<Rightarrow> Inr (on_writer (WriteHeader http_StatusAccepted) s'))"

text \<open>
  \<^verbatim>\<open>NewHTTPHandler\<close>, server.go lines 402-425. \<^verbatim>\<open>DefaultCodec\<close> is declared in another
  file and is a parameter here. The router that the function returns serves the four
  methods of the handler it has built; that handler is the value of the model.
\<close>

definition NewHTTPHandler :: "'v Codec \<Rightarrow> 'v HandlerOptions \<Rightarrow> 'v httpHandler" where
  "NewHTTPHandler DefaultCodec opts =
     (let opts1 = (if Logger opts = None then opts\<lparr>Logger := Some slog_Default\<rparr> else opts);
          opts2 = (if GetResultTimeout opts1 = 0
                   then opts1\<lparr>GetResultTimeout := time_Minute\<rparr> else opts1);
          opts3 = (if Codec opts2 = None then opts2\<lparr>Codec := Some DefaultCodec\<rparr> else opts2)
      in \<lparr>logger = slog_Default, options = opts3\<rparr>)"

subsection \<open>The status of each kind of handler error, as section 6 of the specification lists them\<close>

definition spec_status :: "HandlerErrorType \<Rightarrow> nat option" where
  "spec_status kind =
     (if kind = ''BAD_REQUEST'' then Some 400
      else if kind = ''UNAUTHENTICATED'' then Some 401
      else if kind = ''UNAUTHORIZED'' then Some 403
      else if kind = ''NOT_FOUND'' then Some 404
      else if kind = ''INTERNAL'' then Some 500
      else if kind = ''NOT_IMPLEMENTED'' then Some 501
      else if kind = ''APPLICATION_ERROR'' then Some 520
      else if kind = ''APPLICATION_TIMEOUT'' then Some 521
      else if kind = ''OPERATION_CANCELED'' then Some 424
      else if kind = ''OPERATION_FAILED'' then Some 424
      else None)"

subsection \<open>A handler and requests for the examples\<close>

text \<open>
  The handler of the tests (get_result_test.go): it starts the operation \<^verbatim>\<open>a/sync\<close>
  asynchronously, and its \<^verbatim>\<open>GetOperationResult\<close> returns what the example gives it. Its
  results are byte strings, and its codec puts them in a stream of content type
  \<^verbatim>\<open>application/octet-stream\<close>. \<open>exampleParseDuration\<close> is \<^verbatim>\<open>time.ParseDuration\<close> on
  the wait literals that the examples use: \<^verbatim>\<open>1s\<close> and \<^verbatim>\<open>500ms\<close> are durations, the empty
  string and \<^verbatim>\<open>soon\<close> are not.
\<close>

definition exampleParseDuration :: "string \<Rightarrow> Duration option" where
  "exampleParseDuration w =
     (if w = ''1s'' then Some 1000000000 else if w = ''500ms'' then Some 500000000 else None)"

definition exampleCodec :: "string Codec" where
  "exampleCodec =
     \<lparr>Serialize = (\<lambda>v. case v of
         StreamPtr st \<Rightarrow> Inr st
       | Value bytes \<Rightarrow>
           Inr \<lparr>Header = [(''Content-Type'', ''application/octet-stream'')],
                Reader = \<lparr>content = bytes, fails = None, isCloser = False\<rparr>\<rparr>)\<rparr>"

definition exampleHandler :: "(error + string any) \<times> bool \<Rightarrow> string Handler" where
  "exampleHandler ret =
     \<lparr>StartOperation = (\<lambda>ctx operation input opts. Inr (Some (OperationResponseAsync ''a/sync''))),
      GetOperationResult = (\<lambda>ctx operation operationID opts. ret),
      GetOperationInfo = (\<lambda>ctx operation operationID opts.
        Inr (Some \<lparr>ID = operationID, State = OperationStateRunning\<rparr>)),
      CancelOperation = (\<lambda>ctx operation operationID opts. None)\<rparr>"

definition exampleOptions :: "(error + string any) \<times> bool \<Rightarrow> string HandlerOptions" where
  "exampleOptions ret =
     \<lparr>Handler = exampleHandler ret, Logger = None, GetResultTimeout = 0, Codec = None\<rparr>"

definition exampleRequest :: "string \<Rightarrow> Values \<Rightarrow> Request" where
  "exampleRequest p query =
     \<lparr>URL_EscapedPath = p, URL_Query = query,
      Request_Header = [(''User-Agent'', [''Nexus-go-sdk/v0.0.1''])],
      Request_Body = \<lparr>content = [], fails = None, isCloser = True\<rparr>\<rparr>"

text \<open>What a client and the user's handler see of an exchange: status, body and calls.\<close>

definition observed ::
  "panic + served \<Rightarrow> panic + nat \<times> string \<times> (string \<times> string \<times> string) list" where
  "observed r = map_sum id (\<lambda>s. (Code (writer s), Body (writer s), calls s)) r"

section \<open>Properties of the failure writer\<close>

lemmas HandlerErrorType_defs =
  HandlerErrorTypeOperationCanceled_def HandlerErrorTypeOperationFailed_def
  HandlerErrorTypeInternal_def HandlerErrorTypeApplicationError_def
  HandlerErrorTypeApplicationTimeout_def HandlerErrorTypeUnauthenticated_def
  HandlerErrorTypeUnauthorized_def HandlerErrorTypeBadRequest_def
  HandlerErrorTypeNotFound_def HandlerErrorTypeNotImplemented_def

lemmas status_defs =
  statusOperationRunning_def statusOperationFailed_def http_StatusOK_def
  http_StatusCreated_def http_StatusAccepted_def http_StatusBadRequest_def
  http_StatusUnauthorized_def http_StatusForbidden_def http_StatusNotFound_def
  http_StatusRequestTimeout_def http_StatusInternalServerError_def
  http_StatusNotImplemented_def

lemma canonical_headerContentType:
  "CanonicalMIMEHeaderKey headerContentType = headerContentType"
  by (simp add: CanonicalMIMEHeaderKey_def headerContentType_def validHeaderFieldByte_def Let_def)

lemma canonical_headerOperationState:
  "CanonicalMIMEHeaderKey headerOperationState = headerOperationState"
  by (simp add: CanonicalMIMEHeaderKey_def headerOperationState_def validHeaderFieldByte_def Let_def)

lemma header_names_differ: "headerOperationState \<noteq> headerContentType"
  by (simp add: headerOperationState_def headerContentType_def)

lemma on_writer_simps:
  "writer (on_writer g s) = g (writer s)"
  "records (on_writer g s) = records s"
  "calls (on_writer g s) = calls s"
  by (simp_all add: on_writer_def)

lemma logger_simps:
  "writer (logger_Error h m as s) = writer s"
  "calls (logger_Error h m as s) = calls s"
  "records (logger_Error h m as s) = records s @ [Record (logger h) LevelError m as]"
  "writer (logger_Warn h m as s) = writer s"
  "calls (logger_Warn h m as s) = calls s"
  "records (logger_Warn h m as s) = records s @ [Record (logger h) LevelWarn m as]"
  by (simp_all add: logger_Error_def logger_Warn_def)

lemma called_simps:
  "writer (called m operation operationID s) = writer s"
  "records (called m operation operationID s) = records s"
  "calls (called m operation operationID s) = calls s @ [(m, operation, operationID)]"
  by (simp_all add: called_def)

lemma Header_Set_simps:
  "HeaderMap (Header_Set k v w) = (HeaderMap w)(CanonicalMIMEHeaderKey k \<mapsto> v)"
  "wroteHeader (Header_Set k v w) = wroteHeader w"
  "Code (Header_Set k v w) = Code w"
  "snapHeader (Header_Set k v w) = snapHeader w"
  "Body (Header_Set k v w) = Body w"
  by (simp_all add: Header_Set_def)

lemma WriteHeader_fresh:
  "\<not> wroteHeader w \<Longrightarrow>
   WriteHeader c w = w\<lparr>wroteHeader := True, Code := c, snapHeader := HeaderMap w\<rparr>"
  by (simp add: WriteHeader_def)

lemma WriteHeader_Body: "Body (WriteHeader c w) = Body w"
  by (simp add: WriteHeader_def)

lemma WriteHeader_HeaderMap: "HeaderMap (WriteHeader c w) = HeaderMap w"
  by (simp add: WriteHeader_def)

lemma writer_Write_fresh:
  "writer_Write h bytes s =
     s\<lparr>writer := (if wroteHeader (writer s) then writer s else WriteHeader http_StatusOK (writer s))
                    \<lparr>Body := Body (writer s) @ bytes\<rparr>\<rparr>"
  by (simp add: writer_Write_def Write_def WriteHeader_def Let_def)

lemma writeFailure_send_Some:
  "\<not> wroteHeader (writer s) \<Longrightarrow>
   writeFailure_send h (Some f) statusCode s =
     s\<lparr>writer := (writer s)
         \<lparr>HeaderMap := (HeaderMap (writer s))(headerContentType \<mapsto> contentTypeJSON),
          wroteHeader := True, Code := statusCode,
          snapHeader := (HeaderMap (writer s))(headerContentType \<mapsto> contentTypeJSON),
          Body := Body (writer s) @ json_Failure f\<rparr>\<rparr>"
  by (simp add: writeFailure_send_def json_Marshal_Failure_def on_writer_def Header_Set_def
      WriteHeader_def Write_def writer_Write_def canonical_headerContentType)

lemma writeFailure_send_None:
  "\<not> wroteHeader (writer s) \<Longrightarrow>
   writeFailure_send h None statusCode s =
     s\<lparr>writer := (writer s)
         \<lparr>wroteHeader := True, Code := statusCode, snapHeader := HeaderMap (writer s)\<rparr>\<rparr>"
  by (simp add: writeFailure_send_def WriteHeader_def Write_def writer_Write_def on_writer_def)

lemma writeFailure_send_Body:
  "Body (writer (writeFailure_send h failure statusCode s)) =
     Body (writer s) @ (case failure of None \<Rightarrow> [] | Some f \<Rightarrow> json_Failure f)"
  by (simp add: writeFailure_send_def json_Marshal_Failure_def on_writer_def Header_Set_def
      WriteHeader_def Write_def writer_Write_def split: option.splits)

lemma writeFailure_send_HeaderMap:
  "HeaderMap (writer (writeFailure_send h (Some f) statusCode s)) headerContentType =
     Some contentTypeJSON"
  by (simp add: writeFailure_send_def json_Marshal_Failure_def on_writer_def Header_Set_def
      WriteHeader_def Write_def writer_Write_def canonical_headerContentType)

lemma writeFailure_send_sent:
  "\<not> wroteHeader (writer s) \<Longrightarrow>
   wroteHeader (writer (writeFailure_send h (Some f) statusCode s))
   \<and> snapHeader (writer (writeFailure_send h (Some f) statusCode s)) headerContentType =
       Some contentTypeJSON"
  by (simp add: writeFailure_send_Some)

lemma json_Failure_nonempty: "json_Failure f \<noteq> []"
  by (simp add: json_Failure_def)

lemma json_internal_server_error:
  \<open>json_Failure \<lparr>Message = ''internal server error'', Metadata = [], Details = []\<rparr> =
     ''{"message":"internal server error"}''\<close>
  by (simp add: json_Failure_def json_string_def escapeASCII_def htmlSafe_def dquote_def)

text \<open>
  What the failure writer does with the error, by the kind of the error: the failure it
  sends (if any) and the state of the headers when it starts to send.
\<close>

lemma writeFailure_Body:
  "Body (writer (writeFailure h err s)) =
     Body (writer s) @
     (case errors_As_UnsuccessfulOperationError err of
        Some (st, f) \<Rightarrow>
          if st = OperationStateFailed \<or> st = OperationStateCanceled then json_Failure f else []
      | None \<Rightarrow>
          (case errors_As_HandlerError err of
             Some (t, None) \<Rightarrow> []
           | Some (t, Some f) \<Rightarrow> json_Failure f
           | None \<Rightarrow> json_Failure \<lparr>Message = ''internal server error'', Metadata = [], Details = []\<rparr>))"
  by (simp add: writeFailure_def writeFailure_send_Body on_writer_simps Header_Set_simps
      logger_simps WriteHeader_Body split: option.splits)

lemma writeFailure_unsuccessful:
  "errors_As_UnsuccessfulOperationError err = Some (st, f) \<Longrightarrow>
   st = OperationStateFailed \<or> st = OperationStateCanceled \<Longrightarrow>
   writeFailure h err s =
     writeFailure_send h (Some f) statusOperationFailed
       (on_writer (Header_Set headerOperationState st) s)"
  by (auto simp: writeFailure_def)

lemma writeFailure_unexpected_state:
  "errors_As_UnsuccessfulOperationError err = Some (st, f) \<Longrightarrow>
   st \<noteq> OperationStateFailed \<Longrightarrow> st \<noteq> OperationStateCanceled \<Longrightarrow>
   writeFailure h err s =
     on_writer (WriteHeader http_StatusInternalServerError)
       (logger_Error h ''unexpected operation state'' [StringAttr ''state'' st] s)"
  by (simp add: writeFailure_def)

lemma writeFailure_other:
  "errors_As_UnsuccessfulOperationError err = None \<Longrightarrow> errors_As_HandlerError err = None \<Longrightarrow>
   writeFailure h err s =
     writeFailure_send h (Some \<lparr>Message = ''internal server error'', Metadata = [], Details = []\<rparr>)
       http_StatusInternalServerError
       (logger_Error h ''handler failed'' [ErrorAttr ''error'' err] s)"
  by (simp add: writeFailure_def)

lemma writeFailure_handler_HeaderMap:
  "errors_As_UnsuccessfulOperationError err = None \<Longrightarrow>
   errors_As_HandlerError err = Some (t, Some f) \<Longrightarrow>
   HeaderMap (writer (writeFailure h err s)) headerContentType = Some contentTypeJSON"
  by (simp add: writeFailure_def writeFailure_send_HeaderMap)

lemma writeFailure_handler_sent:
  "errors_As_UnsuccessfulOperationError err = None \<Longrightarrow>
   errors_As_HandlerError err = Some (t, Some f) \<Longrightarrow> \<not> wroteHeader (writer s) \<Longrightarrow>
   wroteHeader (writer (writeFailure h err s))
   \<and> snapHeader (writer (writeFailure h err s)) headerContentType = Some contentTypeJSON"
  by (simp add: writeFailure_def writeFailure_send_sent on_writer_simps Header_Set_simps
      logger_simps)

text \<open>
  Claim C2. An \<^verbatim>\<open>UnsuccessfulOperationError\<close> (found by \<^verbatim>\<open>errors.As\<close>) whose state is
  neither \<^verbatim>\<open>failed\<close> nor \<^verbatim>\<open>canceled\<close> is logged, and the response has status 500: the
  header map is left as it was, so no \<^verbatim>\<open>Nexus-Operation-State\<close> header is set, and no
  byte of body is written.
\<close>

theorem unexpected_operation_state_is_500:
  assumes "errors_As_UnsuccessfulOperationError err = Some (st, f)"
    and "st \<noteq> OperationStateFailed" and "st \<noteq> OperationStateCanceled"
    and "\<not> wroteHeader (writer s)"
  shows "Code (writer (writeFailure h err s)) = 500
       \<and> wroteHeader (writer (writeFailure h err s))
       \<and> HeaderMap (writer (writeFailure h err s)) = HeaderMap (writer s)
       \<and> snapHeader (writer (writeFailure h err s)) = HeaderMap (writer s)
       \<and> Body (writer (writeFailure h err s)) = Body (writer s)
       \<and> records (writeFailure h err s) =
           records s @ [Record (logger h) LevelError ''unexpected operation state''
                          [StringAttr ''state'' st]]"
  using assms
  by (simp add: writeFailure_unexpected_state on_writer_simps logger_simps WriteHeader_fresh
      http_StatusInternalServerError_def)

theorem unexpected_operation_state_is_500_witness:
  "errors_As_UnsuccessfulOperationError
     (UnsuccessfulOperationError ''running'' \<lparr>Message = ''oops'', Metadata = [], Details = []\<rparr>) =
     Some (''running'', \<lparr>Message = ''oops'', Metadata = [], Details = []\<rparr>)
   \<and> ''running'' \<noteq> OperationStateFailed \<and> ''running'' \<noteq> OperationStateCanceled
   \<and> Code (writer (writeFailure \<lparr>logger = slog_Default\<rparr>
        (UnsuccessfulOperationError ''running'' \<lparr>Message = ''oops'', Metadata = [], Details = []\<rparr>)
        (serving NewRecorder))) = 500
   \<and> snapHeader (writer (writeFailure \<lparr>logger = slog_Default\<rparr>
        (UnsuccessfulOperationError ''running'' \<lparr>Message = ''oops'', Metadata = [], Details = []\<rparr>)
        (serving NewRecorder))) headerOperationState = None
   \<and> Body (writer (writeFailure \<lparr>logger = slog_Default\<rparr>
        (UnsuccessfulOperationError ''running'' \<lparr>Message = ''oops'', Metadata = [], Details = []\<rparr>)
        (serving NewRecorder))) = []"
proof -
  let ?f = "\<lparr>Message = ''oops'', Metadata = [], Details = []\<rparr>"
  have a: "errors_As_UnsuccessfulOperationError (UnsuccessfulOperationError ''running'' ?f) =
      Some (''running'', ?f)"
    by simp
  have b: "''running'' \<noteq> OperationStateFailed" and c: "''running'' \<noteq> OperationStateCanceled"
    by (simp_all add: OperationStateFailed_def OperationStateCanceled_def)
  have d: "\<not> wroteHeader (writer (serving NewRecorder))"
    by (simp add: serving_def NewRecorder_def)
  from unexpected_operation_state_is_500[OF a b c d, of "\<lparr>logger = slog_Default\<rparr>"] a b c
  show ?thesis
    by (simp add: serving_def NewRecorder_def)
qed

text \<open>
  Claim C3. The claim gives every kind of \<^verbatim>\<open>HandlerError\<close> its status of section 6
  (\<open>spec_status\<close>). The switch of \<^verbatim>\<open>writeFailure\<close> has no case for
  \<^verbatim>\<open>HandlerErrorTypeOperationFailed\<close>: it falls to the default, which logs the type as
  unexpected and leaves the status at 500, where the claim says 424. The theorem runs the
  failure writer on such an error.
\<close>

theorem operation_failed_handler_error_is_500:
  \<open>Code (writer (writeFailure \<lparr>logger = slog_Default\<rparr>
      (HandlerError HandlerErrorTypeOperationFailed
         (Some \<lparr>Message = ''boom'', Metadata = [], Details = []\<rparr>))
      (serving NewRecorder))) = 500
   \<and> spec_status HandlerErrorTypeOperationFailed = Some 424
   \<and> records (writeFailure \<lparr>logger = slog_Default\<rparr>
      (HandlerError HandlerErrorTypeOperationFailed
         (Some \<lparr>Message = ''boom'', Metadata = [], Details = []\<rparr>))
      (serving NewRecorder)) =
      [Record slog_Default LevelError ''unexpected handler error type''
         [StringAttr ''type'' ''OPERATION_FAILED'']]
   \<and> Body (writer (writeFailure \<lparr>logger = slog_Default\<rparr>
      (HandlerError HandlerErrorTypeOperationFailed
         (Some \<lparr>Message = ''boom'', Metadata = [], Details = []\<rparr>))
      (serving NewRecorder))) = ''{"message":"boom"}''\<close>
  by (simp add: writeFailure_def HandlerErrorType_defs spec_status_def writeFailure_send_Some
      logger_simps serving_def NewRecorder_def http_StatusInternalServerError_def
      json_Failure_def json_string_def escapeASCII_def htmlSafe_def dquote_def)

text \<open>
  For the nine other kinds the status that is written is the one of section 6, and the
  body is the JSON form of the failure of the error, or empty when it has none.
\<close>

lemma handler_error_status_agrees:
  assumes "errors_As_UnsuccessfulOperationError err = None"
    and "errors_As_HandlerError err = Some (kind, failure)"
    and "spec_status kind = Some code" and "kind \<noteq> HandlerErrorTypeOperationFailed"
    and "\<not> wroteHeader (writer s)"
  shows "Code (writer (writeFailure h err s)) = code
       \<and> Body (writer (writeFailure h err s)) =
           Body (writer s) @ (case failure of None \<Rightarrow> [] | Some f \<Rightarrow> json_Failure f)"
proof -
  have body: "Body (writer (writeFailure h err s)) =
      Body (writer s) @ (case failure of None \<Rightarrow> [] | Some f \<Rightarrow> json_Failure f)"
    using assms(1,2) by (simp add: writeFailure_Body split: option.splits)
  have fresh: "\<not> wroteHeader (writer (on_writer (Header_Set k v) s))" for k v
    using assms(5) by (simp add: on_writer_simps Header_Set_simps)
  have code: "Code (writer (writeFailure_send h failure c s0)) = c"
    if "\<not> wroteHeader (writer s0)" for c s0
    using that by (cases failure) (simp_all add: writeFailure_send_Some writeFailure_send_None)
  from assms(3,4) consider
      "kind = ''BAD_REQUEST''" "code = 400" | "kind = ''UNAUTHENTICATED''" "code = 401"
    | "kind = ''UNAUTHORIZED''" "code = 403" | "kind = ''NOT_FOUND''" "code = 404"
    | "kind = ''INTERNAL''" "code = 500" | "kind = ''NOT_IMPLEMENTED''" "code = 501"
    | "kind = ''APPLICATION_ERROR''" "code = 520" | "kind = ''APPLICATION_TIMEOUT''" "code = 521"
    | "kind = ''OPERATION_CANCELED''" "code = 424"
    by (auto simp: spec_status_def HandlerErrorTypeOperationFailed_def split: if_splits)
  then have "Code (writer (writeFailure h err s)) = code"
    using assms(1,2,5)
    by cases
      (simp_all add: writeFailure_def HandlerErrorType_defs status_defs code fresh)
  with body show ?thesis by simp
qed

text \<open>
  Claim C5. An error in whose chain \<^verbatim>\<open>errors.As\<close> finds neither an
  \<^verbatim>\<open>UnsuccessfulOperationError\<close> nor a \<^verbatim>\<open>HandlerError\<close> gets status 500, the JSON content
  type and the body \<^verbatim>\<open>{"message":"internal server error"}\<close>, byte for byte. The response
  writer ends in the same state for any two such errors: nothing of the error reaches the
  response, the error goes to the log alone.
\<close>

theorem other_error_is_generic_500:
  assumes "errors_As_UnsuccessfulOperationError err = None"
    and "errors_As_HandlerError err = None"
    and "errors_As_UnsuccessfulOperationError err' = None"
    and "errors_As_HandlerError err' = None"
    and "\<not> wroteHeader (writer s)"
  shows \<open>Code (writer (writeFailure h err s)) = 500
       \<and> snapHeader (writer (writeFailure h err s)) headerContentType = Some contentTypeJSON
       \<and> Body (writer (writeFailure h err s)) =
           Body (writer s) @ ''{"message":"internal server error"}''
       \<and> writer (writeFailure h err s) = writer (writeFailure h err' s)
       \<and> records (writeFailure h err s) =
           records s @ [Record (logger h) LevelError ''handler failed'' [ErrorAttr ''error'' err]]\<close>
  using assms
  by (simp add: writeFailure_other writeFailure_send_Some logger_simps
      json_internal_server_error http_StatusInternalServerError_def)

theorem other_error_is_generic_500_witness:
  \<open>errors_As_UnsuccessfulOperationError (errorString ''foo'') = None
   \<and> errors_As_HandlerError (errorString ''foo'') = None
   \<and> errors_As_UnsuccessfulOperationError (wrapError ''database: %w'' (errorString ''secret'')) = None
   \<and> errors_As_HandlerError (wrapError ''database: %w'' (errorString ''secret'')) = None
   \<and> Code (writer (writeFailure \<lparr>logger = slog_Default\<rparr> (errorString ''foo'')
        (serving NewRecorder))) = 500
   \<and> Body (writer (writeFailure \<lparr>logger = slog_Default\<rparr> (errorString ''foo'')
        (serving NewRecorder))) = ''{"message":"internal server error"}''
   \<and> writer (writeFailure \<lparr>logger = slog_Default\<rparr> (errorString ''foo'') (serving NewRecorder)) =
       writer (writeFailure \<lparr>logger = slog_Default\<rparr>
         (wrapError ''database: %w'' (errorString ''secret'')) (serving NewRecorder))\<close>
proof -
  have a: "errors_As_UnsuccessfulOperationError (errorString ''foo'') = None"
    and b: "errors_As_HandlerError (errorString ''foo'') = None"
    and c: "errors_As_UnsuccessfulOperationError
              (wrapError ''database: %w'' (errorString ''secret'')) = None"
    and d: "errors_As_HandlerError (wrapError ''database: %w'' (errorString ''secret'')) = None"
    by simp_all
  have e: "\<not> wroteHeader (writer (serving NewRecorder))"
    by (simp add: serving_def NewRecorder_def)
  have f: "Body (writer (serving NewRecorder)) = []"
    by (simp add: serving_def NewRecorder_def)
  note th = other_error_is_generic_500[OF a b c d e, of "\<lparr>logger = slog_Default\<rparr>",
      unfolded f append_Nil]
  from th a b c d show ?thesis
    by blast
qed

text \<open>
  Claim C6. An \<^verbatim>\<open>UnsuccessfulOperationError\<close> whose state is \<^verbatim>\<open>failed\<close> or \<^verbatim>\<open>canceled\<close>
  gets status 424, the header \<^verbatim>\<open>Nexus-Operation-State\<close> with that state (one of the two
  lower-case literals), the JSON content type, and the JSON form of its failure as the
  body. The headers are those that stand when the status line is written.
\<close>

theorem unsuccessful_operation_is_424:
  assumes "errors_As_UnsuccessfulOperationError err = Some (st, f)"
    and "st = OperationStateFailed \<or> st = OperationStateCanceled"
    and "\<not> wroteHeader (writer s)"
  shows "Code (writer (writeFailure h err s)) = 424
       \<and> snapHeader (writer (writeFailure h err s)) headerOperationState = Some st
       \<and> (st = ''failed'' \<or> st = ''canceled'')
       \<and> snapHeader (writer (writeFailure h err s)) headerContentType = Some contentTypeJSON
       \<and> Body (writer (writeFailure h err s)) = Body (writer s) @ json_Failure f"
proof -
  have "st = ''failed'' \<or> st = ''canceled''"
    using assms(2) by (simp add: OperationStateFailed_def OperationStateCanceled_def)
  then show ?thesis
    using assms(3) header_names_differ
    by (simp add: writeFailure_unsuccessful[OF assms(1,2)] writeFailure_send_Some on_writer_simps
        Header_Set_simps canonical_headerOperationState statusOperationFailed_def)
qed

theorem unsuccessful_operation_is_424_witness:
  \<open>errors_As_UnsuccessfulOperationError
     (UnsuccessfulOperationError OperationStateCanceled
        \<lparr>Message = ''canceled'', Metadata = [], Details = []\<rparr>) =
     Some (OperationStateCanceled, \<lparr>Message = ''canceled'', Metadata = [], Details = []\<rparr>)
   \<and> Code (writer (writeFailure \<lparr>logger = slog_Default\<rparr>
        (UnsuccessfulOperationError OperationStateCanceled
           \<lparr>Message = ''canceled'', Metadata = [], Details = []\<rparr>)
        (serving NewRecorder))) = 424
   \<and> snapHeader (writer (writeFailure \<lparr>logger = slog_Default\<rparr>
        (UnsuccessfulOperationError OperationStateCanceled
           \<lparr>Message = ''canceled'', Metadata = [], Details = []\<rparr>)
        (serving NewRecorder))) ''Nexus-Operation-State'' = Some ''canceled''
   \<and> snapHeader (writer (writeFailure \<lparr>logger = slog_Default\<rparr>
        (UnsuccessfulOperationError OperationStateCanceled
           \<lparr>Message = ''canceled'', Metadata = [], Details = []\<rparr>)
        (serving NewRecorder))) ''Content-Type'' = Some ''application/json''
   \<and> Body (writer (writeFailure \<lparr>logger = slog_Default\<rparr>
        (UnsuccessfulOperationError OperationStateCanceled
           \<lparr>Message = ''canceled'', Metadata = [], Details = []\<rparr>)
        (serving NewRecorder))) = ''{"message":"canceled"}''\<close>
proof -
  let ?f = "\<lparr>Message = ''canceled'', Metadata = [], Details = []\<rparr>"
  have a: "errors_As_UnsuccessfulOperationError
      (UnsuccessfulOperationError OperationStateCanceled ?f) = Some (OperationStateCanceled, ?f)"
    by simp
  have b: "OperationStateCanceled = OperationStateFailed
      \<or> OperationStateCanceled = OperationStateCanceled"
    by simp
  have c: "\<not> wroteHeader (writer (serving NewRecorder))"
    by (simp add: serving_def NewRecorder_def)
  have j: \<open>json_Failure ?f = ''{"message":"canceled"}''\<close>
    by (simp add: json_Failure_def json_string_def escapeASCII_def htmlSafe_def dquote_def)
  from unsuccessful_operation_is_424[OF a b c, of "\<lparr>logger = slog_Default\<rparr>"] a j
  show ?thesis
    by (simp add: serving_def NewRecorder_def headerOperationState_def headerContentType_def
        contentTypeJSON_def OperationStateCanceled_def)
qed

text \<open>
  Claim C8. Whenever the failure writer adds bytes to the body, the header map holds
  \<^verbatim>\<open>Content-Type: application/json\<close>; and when the status line was not yet written as
  the failure writer started, the status line is written with that header among the
  headers sent, so the header was set before the status line and the body.
\<close>

theorem body_only_after_content_type:
  "Body (writer (writeFailure h err s)) \<noteq> Body (writer s) \<longrightarrow>
     HeaderMap (writer (writeFailure h err s)) headerContentType = Some contentTypeJSON
     \<and> (\<not> wroteHeader (writer s) \<longrightarrow>
          wroteHeader (writer (writeFailure h err s))
          \<and> snapHeader (writer (writeFailure h err s)) headerContentType = Some contentTypeJSON)"
proof
  assume changed: "Body (writer (writeFailure h err s)) \<noteq> Body (writer s)"
  let ?goal = "HeaderMap (writer (writeFailure h err s)) headerContentType = Some contentTypeJSON
     \<and> (\<not> wroteHeader (writer s) \<longrightarrow>
          wroteHeader (writer (writeFailure h err s))
          \<and> snapHeader (writer (writeFailure h err s)) headerContentType = Some contentTypeJSON)"
  show ?goal
  proof (cases "errors_As_UnsuccessfulOperationError err")
    case (Some a)
    obtain st f where a: "errors_As_UnsuccessfulOperationError err = Some (st, f)"
      using Some by (cases a) simp
    from changed a have ok: "st = OperationStateFailed \<or> st = OperationStateCanceled"
      by (auto simp: writeFailure_Body split: if_splits)
    show ?thesis
      by (simp add: writeFailure_unsuccessful[OF a ok] writeFailure_send_HeaderMap
          writeFailure_send_sent on_writer_simps Header_Set_simps)
  next
    case None
    show ?thesis
    proof (cases "errors_As_HandlerError err")
      case (Some b)
      from changed None Some obtain t f where b: "errors_As_HandlerError err = Some (t, Some f)"
        by (cases b) (auto simp: writeFailure_Body split: option.splits)
      show ?thesis
        using writeFailure_handler_HeaderMap[OF None b] writeFailure_handler_sent[OF None b]
        by blast
    next
      case none: None
      show ?thesis
        by (simp add: writeFailure_other[OF None none] writeFailure_send_HeaderMap
            writeFailure_send_sent logger_simps)
    qed
  qed
qed

theorem body_only_after_content_type_witness:
  "Body (writer (writeFailure \<lparr>logger = slog_Default\<rparr> (newBadRequestError ''foo'')
      (serving NewRecorder))) \<noteq> Body (writer (serving NewRecorder))
   \<and> \<not> wroteHeader (writer (serving NewRecorder))
   \<and> HeaderMap (writer (writeFailure \<lparr>logger = slog_Default\<rparr> (newBadRequestError ''foo'')
      (serving NewRecorder))) headerContentType = Some contentTypeJSON
   \<and> wroteHeader (writer (writeFailure \<lparr>logger = slog_Default\<rparr> (newBadRequestError ''foo'')
      (serving NewRecorder)))
   \<and> snapHeader (writer (writeFailure \<lparr>logger = slog_Default\<rparr> (newBadRequestError ''foo'')
      (serving NewRecorder))) headerContentType = Some contentTypeJSON"
proof -
  have a: "Body (writer (writeFailure \<lparr>logger = slog_Default\<rparr> (newBadRequestError ''foo'')
      (serving NewRecorder))) \<noteq> Body (writer (serving NewRecorder))"
    by (simp add: writeFailure_Body newBadRequestError_def json_Failure_nonempty)
  have b: "\<not> wroteHeader (writer (serving NewRecorder))"
    by (simp add: serving_def NewRecorder_def)
  from body_only_after_content_type[of "\<lparr>logger = slog_Default\<rparr>" "newBadRequestError ''foo''"
      "serving NewRecorder"] a b
  show ?thesis by blast
qed

section \<open>Properties of the endpoints\<close>

lemma fresh_recorder: "\<not> wroteHeader (writer (serving NewRecorder))"
  by (simp add: serving_def NewRecorder_def)

lemma writeFailure_bad_request:
  "\<not> wroteHeader (writer s) \<Longrightarrow>
   writeFailure h (newBadRequestError m) s =
     s\<lparr>writer := (writer s)
         \<lparr>HeaderMap := (HeaderMap (writer s))(headerContentType \<mapsto> contentTypeJSON),
          wroteHeader := True, Code := 400,
          snapHeader := (HeaderMap (writer s))(headerContentType \<mapsto> contentTypeJSON),
          Body := Body (writer s) @ json_Failure \<lparr>Message = m, Metadata = [], Details = []\<rparr>\<rparr>\<rparr>"
  by (simp add: writeFailure_def newBadRequestError_def HandlerErrorType_defs
      writeFailure_send_Some http_StatusBadRequest_def)

lemma example_path:
  "path_Split (path_Dir ''/op/id/result'') = (''/op/'', ''id'')"
  "url_PathUnescape ''id'' = Some ''id''"
  "url_PathUnescape (path_Base ''/op/'') = Some ''op''"
  by (simp_all add: path_Split_def path_Dir_def path_Clean_def path_Base_def Let_def)

lemma example_handler_simps:
  "URL_EscapedPath (exampleRequest p q) = p"
  "URL_Query (exampleRequest p q) = q"
  "Request_Header (exampleRequest p q) = [(''User-Agent'', [''Nexus-go-sdk/v0.0.1''])]"
  "GetOperationResult (Handler (options (NewHTTPHandler exampleCodec (exampleOptions ret)))) = (\<lambda>ctx operation operationID opts. ret)"
  "GetResultTimeout (options (NewHTTPHandler exampleCodec (exampleOptions ret))) = time_Minute"
  "Codec (options (NewHTTPHandler exampleCodec (exampleOptions ret))) = Some exampleCodec"
  "logger (NewHTTPHandler exampleCodec (exampleOptions ret)) = slog_Default"
  "Serialize exampleCodec (Value bytes) =
     Inr \<lparr>Header = [(''Content-Type'', ''application/octet-stream'')],
          Reader = \<lparr>content = bytes, fails = None, isCloser = False\<rparr>\<rparr>"
  by (simp_all add: exampleRequest_def NewHTTPHandler_def exampleOptions_def exampleHandler_def
      exampleCodec_def Let_def)

text \<open>
  Claim C4. When the result is a \<^verbatim>\<open>*Stream\<close>, \<^verbatim>\<open>writeResult\<close> reads \<^verbatim>\<open>stream.Reader\<close>
  on line 164 while the local \<^verbatim>\<open>stream\<close> is still nil (the result is bound to
  \<^verbatim>\<open>s\<close>): the handler panics before it touches the response. The claim says that the
  bytes and the headers of the stream are copied to the response.
\<close>

theorem writeResult_of_stream_panics:
  "writeResult h (StreamPtr st) s = Inl NilPointerDereference
   \<and> applyToHTTPResponse (OperationResponseSync (StreamPtr st)) h s = Inl NilPointerDereference"
  by (simp add: writeResult_def applyToHTTPResponse_def Stream_Reader_def)

text \<open>
  Claim C7. For the response \<^verbatim>\<open>OperationResponseAsync{operationID}\<close> the status is 201,
  \<^verbatim>\<open>Content-Type: application/json\<close> is among the headers sent, and the body is the JSON
  form of the \<^verbatim>\<open>OperationInfo\<close> with that ID and the state \<^verbatim>\<open>running\<close>.
\<close>

theorem async_response_is_201:
  assumes "\<not> wroteHeader (writer s)"
  shows \<open>applyToHTTPResponse (OperationResponseAsync operationID) h s =
       Inr (s\<lparr>writer := (writer s)
              \<lparr>HeaderMap := (HeaderMap (writer s))(headerContentType \<mapsto> contentTypeJSON),
               wroteHeader := True, Code := 201,
               snapHeader := (HeaderMap (writer s))(headerContentType \<mapsto> contentTypeJSON),
               Body := Body (writer s)
                 @ json_OperationInfo \<lparr>ID = operationID, State = OperationStateRunning\<rparr>\<rparr>\<rparr>)
     \<and> json_OperationInfo \<lparr>ID = operationID, State = OperationStateRunning\<rparr> =
         ''{"id":'' @ json_string operationID @ '',"state":"running"}''\<close>
  using assms
  by (simp add: applyToHTTPResponse_def json_Marshal_OperationInfo_def writer_Write_fresh
      on_writer_simps Header_Set_simps WriteHeader_fresh on_writer_def Header_Set_def
      canonical_headerContentType http_StatusCreated_def json_OperationInfo_def
      OperationStateRunning_def json_string_def escapeASCII_def htmlSafe_def dquote_def)

theorem async_response_is_201_witness:
  \<open>\<not> wroteHeader (writer (serving NewRecorder))
   \<and> observed (applyToHTTPResponse (OperationResponseAsync ''a/sync'')
        (NewHTTPHandler exampleCodec (exampleOptions (Inr (Value ''body''), False)))
        (serving NewRecorder)) =
       Inr (201, ''{"id":"a/sync","state":"running"}'', [])\<close>
proof -
  have j: \<open>json_OperationInfo \<lparr>ID = ''a/sync'', State = OperationStateRunning\<rparr> =
      ''{"id":"a/sync","state":"running"}''\<close>
    by (simp add: json_OperationInfo_def OperationStateRunning_def json_string_def
        escapeASCII_def htmlSafe_def dquote_def)
  from async_response_is_201[OF fresh_recorder, of "''a/sync''"
      "NewHTTPHandler exampleCodec (exampleOptions (Inr (Value ''body''), False))"]
  show ?thesis
    by (simp add: fresh_recorder observed_def j serving_def NewRecorder_def)
qed

text \<open>
  Claim C1, as the code has it. A get-result request whose path decodes and whose wait
  literal parses to a positive duration calls the handler under the derived context.
  When the handler returns an error and \<^verbatim>\<open>ctx.Err()\<close> is non-nil by then, the status is
  408, whatever the error is; otherwise the status is 412 when the error is
  \<^verbatim>\<open>ErrOperationStillRunning\<close>, and any other error goes to the failure writer. A result
  goes to \<^verbatim>\<open>writeResult\<close>, whether the context has expired or not.
\<close>

theorem long_poll_outcomes:
  assumes "path_Split (path_Dir (URL_EscapedPath request)) = (prefix, operationIDEscaped)"
    and "url_PathUnescape operationIDEscaped = Some operationID"
    and "url_PathUnescape (path_Base prefix) = Some operation"
    and "Values_Get (URL_Query request) queryWait = waitStr"
    and "waitStr \<noteq> []" and "ParseDuration waitStr = Some d" and "0 < d"
    and "GetOperationResult (Handler (options h))
           (context_WithTimeout request_Context (GetResultTimeout (options h)))
           operation operationID
           \<lparr>GetOperationResult_Header = Request_Header request, Wait = d\<rparr> = (ret, ctx_Err)"
  shows "getOperationResult ParseDuration h request s =
     (case ret of
        Inl err \<Rightarrow>
          if ctx_Err then
            Inr (on_writer (WriteHeader 408) (called ''GetOperationResult'' operation operationID s))
          else if errors_Is_ErrOperationStillRunning err then
            Inr (on_writer (WriteHeader 412) (called ''GetOperationResult'' operation operationID s))
          else Inr (writeFailure h err (called ''GetOperationResult'' operation operationID s))
      | Inr result \<Rightarrow>
          writeResult h result (called ''GetOperationResult'' operation operationID s))"
  using assms
  by (simp add: getOperationResult_def Let_def http_StatusRequestTimeout_def
      statusOperationRunning_def split: sum.splits)

theorem long_poll_outcomes_witness:
  "Values_Get [(''wait'', [''1s''])] queryWait = ''1s'' \<and> exampleParseDuration ''1s'' = Some 1000000000
   \<and> observed (getOperationResult exampleParseDuration
        (NewHTTPHandler exampleCodec (exampleOptions (Inl ErrOperationStillRunning, False)))
        (exampleRequest ''/op/id/result'' [(''wait'', [''1s''])]) (serving NewRecorder)) =
       Inr (412, [], [(''GetOperationResult'', ''op'', ''id'')])"
proof -
  let ?h = "NewHTTPHandler exampleCodec (exampleOptions (Inl ErrOperationStillRunning, False))"
  let ?r = "exampleRequest ''/op/id/result'' [(''wait'', [''1s''])]"
  have w: "Values_Get (URL_Query ?r) queryWait = ''1s''"
    by (simp add: example_handler_simps Values_Get_def queryWait_def)
  have p: "exampleParseDuration ''1s'' = Some 1000000000"
    by (simp add: exampleParseDuration_def)
  have c: "GetOperationResult (Handler (options ?h))
           (context_WithTimeout request_Context (GetResultTimeout (options ?h))) ''op'' ''id''
           \<lparr>GetOperationResult_Header = Request_Header ?r, Wait = 1000000000\<rparr> =
         (Inl ErrOperationStillRunning, False)"
    by (simp add: example_handler_simps)
  have "getOperationResult exampleParseDuration ?h ?r (serving NewRecorder) =
      Inr (on_writer (WriteHeader 412) (called ''GetOperationResult'' ''op'' ''id'' (serving NewRecorder)))"
    using long_poll_outcomes[of ?r "''/op/''" "''id''" "''id''" "''op''" "''1s''"
        exampleParseDuration 1000000000 ?h "Inl ErrOperationStillRunning" False "serving NewRecorder",
        OF _ _ _ w _ p _ c]
    by (simp add: example_handler_simps example_path)
  with w p show ?thesis
    by (simp add: observed_def on_writer_simps called_simps WriteHeader_fresh fresh_recorder
        example_handler_simps serving_def NewRecorder_def)
qed

text \<open>
  The claim as it is written fails where both of its conditions hold: the handler returns
  \<^verbatim>\<open>ErrOperationStillRunning\<close> and the derived context has expired. The status is 408,
  not 412.
\<close>

theorem still_running_after_expiry_is_408:
  "exampleParseDuration ''1s'' = Some 1000000000
   \<and> errors_Is_ErrOperationStillRunning ErrOperationStillRunning
   \<and> observed (getOperationResult exampleParseDuration
        (NewHTTPHandler exampleCodec (exampleOptions (Inl ErrOperationStillRunning, True)))
        (exampleRequest ''/op/id/result'' [(''wait'', [''1s''])]) (serving NewRecorder)) =
       Inr (408, [], [(''GetOperationResult'', ''op'', ''id'')])
   \<and> statusOperationRunning \<noteq> 408"
  by (simp add: getOperationResult_def example_handler_simps example_path Values_Get_def
      queryWait_def exampleParseDuration_def Let_def observed_def on_writer_simps called_simps
      WriteHeader_fresh fresh_recorder status_defs serving_def NewRecorder_def)

text \<open>
  Claim C9, as the code has it. When the first value of the \<^verbatim>\<open>wait\<close> query parameter is
  not empty and is not a duration, the response has status 400, the JSON content type and
  the JSON form of a failure as its body, and the user's handler is not called. (The
  failure says that the wait parameter is invalid, or that the path could not be parsed
  when the path fails to decode first.)
\<close>

theorem invalid_wait_is_400:
  assumes "Values_Get (URL_Query request) queryWait \<noteq> []"
    and "ParseDuration (Values_Get (URL_Query request) queryWait) = None"
    and "\<not> wroteHeader (writer s)"
  shows "\<exists>s' m. getOperationResult ParseDuration h request s = Inr s'
       \<and> Code (writer s') = 400
       \<and> snapHeader (writer s') headerContentType = Some contentTypeJSON
       \<and> Body (writer s') =
           Body (writer s) @ json_Failure \<lparr>Message = m, Metadata = [], Details = []\<rparr>
       \<and> (m = ''invalid wait query parameter'' \<or> m = ''failed to parse URL path'')
       \<and> calls s' = calls s"
proof -
  obtain prefix operationIDEscaped where
    split: "path_Split (path_Dir (URL_EscapedPath request)) = (prefix, operationIDEscaped)"
    by (cases "path_Split (path_Dir (URL_EscapedPath request))")
  let ?bad = "writeFailure h (newBadRequestError ''failed to parse URL path'') s"
  let ?warned = "logger_Warn h ''invalid wait duration query parameter''
      [StringAttr ''wait'' (Values_Get (URL_Query request) queryWait)] s"
  let ?invalid = "writeFailure h (newBadRequestError ''invalid wait query parameter'') ?warned"
  have fresh: "\<not> wroteHeader (writer ?warned)"
    using assms(3) by (simp add: logger_simps)
  have "getOperationResult ParseDuration h request s = Inr ?bad
      \<or> getOperationResult ParseDuration h request s = Inr ?invalid"
    using split assms(1,2)
    by (simp add: getOperationResult_def Let_def split: option.splits)
  then show ?thesis
  proof
    assume "getOperationResult ParseDuration h request s = Inr ?bad"
    then show ?thesis
      using assms(3) by (auto simp: writeFailure_bad_request)
  next
    assume "getOperationResult ParseDuration h request s = Inr ?invalid"
    then show ?thesis
      using assms(3) by (auto simp: writeFailure_bad_request[OF fresh] logger_simps)
  qed
qed

theorem invalid_wait_is_400_witness:
  \<open>Values_Get [(''wait'', [''soon''])] queryWait \<noteq> []
   \<and> exampleParseDuration (Values_Get [(''wait'', [''soon''])] queryWait) = None
   \<and> observed (getOperationResult exampleParseDuration
        (NewHTTPHandler exampleCodec (exampleOptions (Inr (Value ''body''), False)))
        (exampleRequest ''/op/id/result'' [(''wait'', [''soon''])]) (serving NewRecorder)) =
       Inr (400, ''{"message":"invalid wait query parameter"}'', [])\<close>
proof -
  let ?h = "NewHTTPHandler exampleCodec (exampleOptions (Inr (Value ''body''), False))"
  let ?r = "exampleRequest ''/op/id/result'' [(''wait'', [''soon''])]"
  have v: "Values_Get [(''wait'', [''soon''])] queryWait = ''soon''"
    by (simp add: Values_Get_def queryWait_def)
  have a: "Values_Get (URL_Query ?r) queryWait \<noteq> []"
    by (simp add: example_handler_simps v)
  have b: "exampleParseDuration (Values_Get (URL_Query ?r) queryWait) = None"
    by (simp add: example_handler_simps v exampleParseDuration_def)
  from invalid_wait_is_400[of ?r exampleParseDuration "serving NewRecorder" ?h,
      OF a b fresh_recorder] obtain s' m where
    r: "getOperationResult exampleParseDuration ?h ?r (serving NewRecorder) = Inr s'"
    and "Code (writer s') = 400" "calls s' = calls (serving NewRecorder)"
    by blast
  have e: \<open>observed (getOperationResult exampleParseDuration ?h ?r (serving NewRecorder)) =
      Inr (400, ''{"message":"invalid wait query parameter"}'', [])\<close>
    by (simp add: getOperationResult_def example_handler_simps example_path v
        exampleParseDuration_def Let_def observed_def writeFailure_bad_request logger_simps
        fresh_recorder json_Failure_def json_string_def escapeASCII_def htmlSafe_def dquote_def
        serving_def NewRecorder_def)
  from r e a b show ?thesis
    by (simp add: example_handler_simps)
qed

text \<open>
  The claim as it is written fails for a \<^verbatim>\<open>wait\<close> parameter that is present with an
  empty value (\<^verbatim>\<open>?wait=\<close>), which is not a duration: line 305 takes the empty string for
  an absent parameter, the handler is called, and its result is written with status 200.
\<close>

theorem empty_wait_reaches_the_handler:
  "map_of (URL_Query (exampleRequest ''/op/id/result'' [(''wait'', [''''])])) queryWait = Some ['''']
   \<and> exampleParseDuration '''' = None
   \<and> observed (getOperationResult exampleParseDuration
        (NewHTTPHandler exampleCodec (exampleOptions (Inr (Value ''body''), False)))
        (exampleRequest ''/op/id/result'' [(''wait'', [''''])]) (serving NewRecorder)) =
       Inr (200, ''body'', [(''GetOperationResult'', ''op'', ''id'')])"
  by (simp add: getOperationResult_def example_handler_simps example_path Values_Get_def
      queryWait_def exampleParseDuration_def Let_def observed_def called_simps
      writeResult_def Stream_Header_def Stream_Reader_def io_Copy_def
      Write_def WriteHeader_def Header_Set_def http_StatusOK_def serving_def NewRecorder_def)

text \<open>
  The endpoints read the logger, the codec, the user's handler and the timeout of an
  \<^verbatim>\<open>httpHandler\<close>, and nothing else of it.
\<close>

lemma logger_Error_logger: "logger h = logger h' \<Longrightarrow> logger_Error h = logger_Error h'"
  by (rule ext)+ (simp add: logger_Error_def)

lemma logger_Warn_logger: "logger h = logger h' \<Longrightarrow> logger_Warn h = logger_Warn h'"
  by (rule ext)+ (simp add: logger_Warn_def)

lemma writer_Write_logger:
  assumes "logger h = logger h'"
  shows "writer_Write h = writer_Write h'"
  by (rule ext)+ (unfold writer_Write_def logger_Error_logger[OF assms], rule refl)

lemma writeFailure_send_logger:
  assumes "logger h = logger h'"
  shows "writeFailure_send h = writeFailure_send h'"
  by (rule ext)+
    (unfold writeFailure_send_def logger_Error_logger[OF assms] writer_Write_logger[OF assms],
      rule refl)

lemma writeFailure_logger:
  assumes "logger h = logger h'"
  shows "writeFailure h = writeFailure h'"
  by (rule ext)+
    (unfold writeFailure_def logger_Error_logger[OF assms] writeFailure_send_logger[OF assms],
      rule refl)

lemma writeResult_logger:
  assumes "logger h = logger h'" and "Codec (options h) = Codec (options h')"
  shows "writeResult h = writeResult h'"
  by (rule ext)+
    (unfold writeResult_def assms(2) logger_Error_logger[OF assms(1)]
      writeFailure_logger[OF assms(1)], rule refl)

lemma applyToHTTPResponse_logger:
  assumes "logger h = logger h'" and "Codec (options h) = Codec (options h')"
  shows "applyToHTTPResponse r h = applyToHTTPResponse r h'"
  by (rule ext)+
    (unfold applyToHTTPResponse_def logger_Error_logger[OF assms(1)]
      writer_Write_logger[OF assms(1)] writeResult_logger[OF assms], rule refl)

lemma endpoints_logger:
  assumes "logger h = logger h'" and "Codec (options h) = Codec (options h')"
    and "Handler (options h) = Handler (options h')"
    and "GetResultTimeout (options h) = GetResultTimeout (options h')"
  shows "startOperation h request s = startOperation h' request s"
    and "getOperationResult ParseDuration h request s =
         getOperationResult ParseDuration h' request s"
    and "getOperationInfo h request s = getOperationInfo h' request s"
    and "cancelOperation h request s = cancelOperation h' request s"
  unfolding startOperation_def getOperationResult_def getOperationInfo_def
    cancelOperation_def assms(2,3,4) logger_Warn_logger[OF assms(1)]
    writeFailure_logger[OF assms(1)] writeResult_logger[OF assms(1,2)]
    applyToHTTPResponse_logger[OF assms(1,2)] writer_Write_logger[OF assms(1)]
  by (rule refl)+

lemma NewHTTPHandler_fields:
  "logger (NewHTTPHandler dc opts) = slog_Default"
  "Logger (options (NewHTTPHandler dc opts)) =
     Some (case Logger opts of None \<Rightarrow> slog_Default | Some l \<Rightarrow> l)"
  "Handler (options (NewHTTPHandler dc opts)) = Handler opts"
  "Codec (options (NewHTTPHandler dc opts)) =
     Some (case Codec opts of None \<Rightarrow> dc | Some c \<Rightarrow> c)"
  "GetResultTimeout (options (NewHTTPHandler dc opts)) =
     (if GetResultTimeout opts = 0 then time_Minute else GetResultTimeout opts)"
  by (auto simp: NewHTTPHandler_def Let_def split: option.splits)

text \<open>
  Claim C10. Whatever the options are, the handler that \<^verbatim>\<open>NewHTTPHandler\<close> builds logs to
  \<^verbatim>\<open>slog.Default()\<close>. The \<^verbatim>\<open>Logger\<close> of the options is given its default in the copy of
  the options that the handler keeps, and nothing reads it there: the four endpoints and
  the failure writer do the same with any other \<^verbatim>\<open>Logger\<close> in the options.
\<close>

theorem handler_logs_to_slog_Default:
  "logger (NewHTTPHandler dc opts) = slog_Default
   \<and> Logger (options (NewHTTPHandler dc opts)) =
       Some (case Logger opts of None \<Rightarrow> slog_Default | Some l \<Rightarrow> l)
   \<and> startOperation (NewHTTPHandler dc (opts\<lparr>Logger := l\<rparr>)) request s =
       startOperation (NewHTTPHandler dc opts) request s
   \<and> getOperationResult ParseDuration (NewHTTPHandler dc (opts\<lparr>Logger := l\<rparr>)) request s =
       getOperationResult ParseDuration (NewHTTPHandler dc opts) request s
   \<and> getOperationInfo (NewHTTPHandler dc (opts\<lparr>Logger := l\<rparr>)) request s =
       getOperationInfo (NewHTTPHandler dc opts) request s
   \<and> cancelOperation (NewHTTPHandler dc (opts\<lparr>Logger := l\<rparr>)) request s =
       cancelOperation (NewHTTPHandler dc opts) request s
   \<and> writeFailure (NewHTTPHandler dc (opts\<lparr>Logger := l\<rparr>)) err s =
       writeFailure (NewHTTPHandler dc opts) err s
   \<and> records (writeFailure (NewHTTPHandler dc opts) (errorString m) s) =
       records s @ [Record slog_Default LevelError ''handler failed''
                      [ErrorAttr ''error'' (errorString m)]]"
proof -
  let ?h = "NewHTTPHandler dc (opts\<lparr>Logger := l\<rparr>)" and ?h' = "NewHTTPHandler dc opts"
  have a: "logger ?h = logger ?h'" and b: "Codec (options ?h) = Codec (options ?h')"
    and c: "Handler (options ?h) = Handler (options ?h')"
    and d: "GetResultTimeout (options ?h) = GetResultTimeout (options ?h')"
    by (simp_all add: NewHTTPHandler_fields)
  have "records (writeFailure ?h' (errorString m) s) =
       records s @ [Record slog_Default LevelError ''handler failed''
                      [ErrorAttr ''error'' (errorString m)]]"
    by (simp add: writeFailure_def writeFailure_send_def json_Marshal_Failure_def
        writer_Write_def Write_def Let_def on_writer_simps logger_simps NewHTTPHandler_fields)
  then show ?thesis
    using endpoints_logger[OF a b c d] writeFailure_logger[OF a]
    by (simp add: NewHTTPHandler_fields)
qed

end
